theory Spec2Isabelle
  imports Complex_Main "HOL-Library.Log_Nat"
begin

section \<open>JavaScript values used by main.js\<close>

text \<open>
  The speed and the delays of playback are JavaScript numbers: IEEE 754 binary64 values,
  with the operations rounding to nearest, ties to even. A number is a sign with a
  magnitude (\<open>Num\<close>; the two zeros are \<open>Num False 0\<close> and \<open>Num True 0\<close>), an infinity
  with its sign, or NaN. The magnitude is kept as the rational number the double stands
  for; every operation returns a double whatever magnitudes it is given, and nothing
  below depends on the magnitude of an argument being one.
\<close>

datatype jsnum = Num bool rat | Infty bool | NaN

definition pow2 :: "int \<Rightarrow> rat" where
  "pow2 k = (if 0 \<le> k then 2 ^ nat k else 1 / 2 ^ nat (- k))"

text \<open>The binary exponent of a positive rational: the \<open>e\<close> with \<open>2^e \<le> m < 2^(e+1)\<close>.\<close>

definition ilog2 :: "rat \<Rightarrow> int" where
  "ilog2 m =
     (let k = bitlen (fst (quotient_of m)) - bitlen (snd (quotient_of m))
      in if pow2 k \<le> m then k else k - 1)"

definition round_half_even :: "rat \<Rightarrow> int" where
  "round_half_even y =
     (let f = \<lfloor>y\<rfloor>; d = y - of_int f
      in if d < 1 / 2 then f else if 1 / 2 < d then f + 1
         else if even f then f else f + 1)"

text \<open>
  The double nearest to an exact magnitude: 53 significant bits at the exponent of the
  magnitude, the exponent not below -1022 (so the subnormal numbers have the spacing
  \<open>2^-1074\<close>), and an infinity when the rounded magnitude reaches \<open>2^1024\<close>.
\<close>

definition round_double :: "bool \<Rightarrow> rat \<Rightarrow> jsnum" where
  "round_double neg m =
     (if m = 0 then Num neg 0
      else
        (let e = max (ilog2 m) (- 1022);
             q = pow2 (e - 52);
             n = round_half_even (m / q)
         in if 1024 \<le> e \<or> (e = 1023 \<and> 9007199254740992 \<le> n) then Infty neg
            else Num neg (of_int n * q)))"

text \<open>The operators \<^verbatim>\<open>*\<close>, \<^verbatim>\<open>/\<close> and \<^verbatim>\<open>+\<close> on numbers.\<close>

fun js_mul :: "jsnum \<Rightarrow> jsnum \<Rightarrow> jsnum" where
  "js_mul NaN b = NaN"
| "js_mul a NaN = NaN"
| "js_mul (Infty s) (Infty t) = Infty (s \<noteq> t)"
| "js_mul (Infty s) (Num t n) = (if n = 0 then NaN else Infty (s \<noteq> t))"
| "js_mul (Num s m) (Infty t) = (if m = 0 then NaN else Infty (s \<noteq> t))"
| "js_mul (Num s m) (Num t n) = round_double (s \<noteq> t) (m * n)"

fun js_div :: "jsnum \<Rightarrow> jsnum \<Rightarrow> jsnum" where
  "js_div NaN b = NaN"
| "js_div a NaN = NaN"
| "js_div (Infty s) (Infty t) = NaN"
| "js_div (Infty s) (Num t n) = Infty (s \<noteq> t)"
| "js_div (Num s m) (Infty t) = Num (s \<noteq> t) 0"
| "js_div (Num s m) (Num t n) =
     (if n = 0 then (if m = 0 then NaN else Infty (s \<noteq> t))
      else round_double (s \<noteq> t) (m / n))"

definition signed :: "bool \<Rightarrow> rat \<Rightarrow> rat" where
  "signed neg m = (if neg then - m else m)"

fun js_add :: "jsnum \<Rightarrow> jsnum \<Rightarrow> jsnum" where
  "js_add NaN b = NaN"
| "js_add a NaN = NaN"
| "js_add (Infty s) (Infty t) = (if s = t then Infty s else NaN)"
| "js_add (Infty s) (Num t n) = Infty s"
| "js_add (Num s m) (Infty t) = Infty t"
| "js_add (Num s m) (Num t n) =
     (let v = signed s m + signed t n
      in if v = 0 then Num (s \<and> t) 0 else round_double (v < 0) \<bar>v\<bar>)"

text \<open>
  A number written in the source (\<^verbatim>\<open>100\<close>) or given as an exact double, and an array
  index or length as a number.
\<close>

definition num :: "rat \<Rightarrow> jsnum" where
  "num x = Num (x < 0) \<bar>x\<bar>"

definition of_index :: "nat \<Rightarrow> jsnum" where
  "of_index i = Num False (of_nat i)"

text \<open>
  \<^verbatim>\<open>v || d\<close>: an undefined field, the empty string and the number 0 are falsy, and
  the default is taken.
\<close>

definition or_string :: "string option \<Rightarrow> string \<Rightarrow> string" where
  "or_string v d = (case v of None \<Rightarrow> d | Some t \<Rightarrow> if t = [] then d else t)"

definition or_int :: "int option \<Rightarrow> int \<Rightarrow> int" where
  "or_int v d = (case v of None \<Rightarrow> d | Some n \<Rightarrow> if n = 0 then d else n)"

text \<open>
  The string that \<^verbatim>\<open>String.prototype.toLowerCase\<close> returns for a string. Its case table
  belongs to the runtime; the result is kept as the string it was computed from.
\<close>

datatype lowered = ToLowerCase string

datatype js_error = TypeError

section \<open>Data of the engine\<close>

text \<open>A macro action object: \<^verbatim>\<open>{type, x, y, button, key}\<close>.\<close>

record action =
  action_type :: string
  action_x :: int
  action_y :: int
  action_button :: "string option"
  action_key :: string

text \<open>The object stored under the key \<^verbatim>\<open>settings\<close>; a field may be undefined.\<close>

record settings =
  autoClickerSpeed :: "int option"
  autoClickerHotkey :: "string option"
  macroRecordHotkey :: "string option"
  macroPlaybackHotkey :: "string option"
  macroSpeed :: "jsnum option"
  hotkeyButton :: "string option"
  hotkeyMode :: "string option"

definition empty_settings :: settings where
  "empty_settings =
     \<lparr>autoClickerSpeed = None, autoClickerHotkey = None, macroRecordHotkey = None,
      macroPlaybackHotkey = None, macroSpeed = None, hotkeyButton = None,
      hotkeyMode = None\<rparr>"

definition default_settings :: settings where
  "default_settings =
     \<lparr>autoClickerSpeed = Some 100, autoClickerHotkey = Some ''F1'',
      macroRecordHotkey = Some ''F2'', macroPlaybackHotkey = Some ''F3'',
      macroSpeed = Some (num 1), hotkeyButton = Some ''F'', hotkeyMode = Some ''toggle''\<rparr>"

text \<open>The event object of the global key listener: \<^verbatim>\<open>e.state\<close> and \<^verbatim>\<open>e.name\<close>.\<close>

record key_event =
  e_state :: string
  e_name :: string

text \<open>Calls made on robotjs, and messages sent to the window, in the order made.\<close>

datatype robot_call =
    MoveMouse int int
  | MouseClick string
  | KeyTap string
  | KeyToggle lowered string
  | GetMousePos

datatype ipc_message =
    AutoClickerStopped
  | AutoClickerStarted
  | MacroRecordingToggled
  | MacroPlayed "action list" "jsnum option"

text \<open>
  \<^verbatim>\<open>maxPlays = times === -1 ? Infinity : times\<close>, and the comparison
  \<^verbatim>\<open>playCount >= maxPlays\<close>.
\<close>

datatype maxplays = Infinity | Finite int

fun count_reached :: "nat \<Rightarrow> maxplays \<Rightarrow> bool" where
  "count_reached c Infinity = False"
| "count_reached c (Finite n) = (n \<le> int c)"

text \<open>
  The variables each call of the play-macro handler closes over: its arguments
  \<^verbatim>\<open>macro\<close> and \<^verbatim>\<open>speed\<close>, \<^verbatim>\<open>maxPlays\<close> and the mutable \<^verbatim>\<open>playCount\<close>. The closures live
  in a store, indexed by the number of the call, because \<^verbatim>\<open>playMacroOnce\<close> of one call
  is invoked again later by the timer service and finds its own \<^verbatim>\<open>playCount\<close> there.
\<close>

record closure =
  run_macro :: "action list"
  run_speed :: jsnum
  maxPlays :: maxplays
  playCount :: nat

text \<open>
  The two kinds of function handed to \<^verbatim>\<open>setTimeout\<close> (the arrow function of one action,
  and \<^verbatim>\<open>playMacroOnce\<close> of a call), and the two handed to \<^verbatim>\<open>setInterval\<close> (by the
  start-auto-clicker handler and by \<^verbatim>\<open>toggleAutoClicker\<close>).
\<close>

datatype timeout_callback = ActionCallback action | PlayMacroOnce nat

datatype interval_callback = StartHandlerTick | ToggleTick

text \<open>
  The module-level variables of main.js, the two keys of the electron-store, and the
  state of the collaborators: the timer service (repeating timers with their handle,
  one-shot timers with the delay requested), robotjs and the window.
\<close>

record engine =
  store_settings :: "settings option"
  store_lastMacro :: "action list option"
  autoClickerInterval :: "nat option"
  macroRecording :: "action list"
  macroPlaying :: bool
  hotkeyPressed :: bool
  intervals :: "(nat \<times> interval_callback \<times> int) list"
  timeouts :: "(jsnum \<times> timeout_callback) list"
  next_handle :: nat
  closures :: "closure list"
  robot_calls :: "robot_call list"
  sent :: "ipc_message list"

text \<open>
  The state when the application is ready: the variables as main.js initialises them, and
  whatever an earlier session left in the store.
\<close>

definition launch :: "settings option \<Rightarrow> action list option \<Rightarrow> engine" where
  "launch st lm =
     \<lparr>store_settings = st, store_lastMacro = lm, autoClickerInterval = None,
      macroRecording = [], macroPlaying = False, hotkeyPressed = False,
      intervals = [], timeouts = [], next_handle = 0, closures = [],
      robot_calls = [], sent = []\<rparr>"

section \<open>Collaborators\<close>

definition robot :: "robot_call list \<Rightarrow> engine \<Rightarrow> engine" where
  "robot cs s = s\<lparr>robot_calls := robot_calls s @ cs\<rparr>"

definition send :: "ipc_message \<Rightarrow> engine \<Rightarrow> engine" where
  "send m s = s\<lparr>sent := sent s @ [m]\<rparr>"

text \<open>\<^verbatim>\<open>store.get('settings', {})\<close> and \<^verbatim>\<open>store.get('lastMacro', [])\<close>.\<close>

definition get_settings_or_empty :: "engine \<Rightarrow> settings" where
  "get_settings_or_empty s =
     (case store_settings s of None \<Rightarrow> empty_settings | Some st \<Rightarrow> st)"

definition get_lastMacro :: "engine \<Rightarrow> action list" where
  "get_lastMacro s = (case store_lastMacro s of None \<Rightarrow> [] | Some m \<Rightarrow> m)"

text \<open>
  \<^verbatim>\<open>setInterval\<close> returns a fresh handle (an object, hence truthy) and keeps the timer
  until \<^verbatim>\<open>clearInterval\<close> of that handle; \<^verbatim>\<open>setTimeout\<close> keeps the function with the
  delay it was given until the timer service invokes it.
\<close>

definition setInterval :: "interval_callback \<Rightarrow> int \<Rightarrow> engine \<Rightarrow> nat \<times> engine" where
  "setInterval cb ms s =
     (next_handle s,
      s\<lparr>intervals := intervals s @ [(next_handle s, cb, ms)],
        next_handle := Suc (next_handle s)\<rparr>)"

definition clearInterval :: "nat \<Rightarrow> engine \<Rightarrow> engine" where
  "clearInterval h s = s\<lparr>intervals := filter (\<lambda>t. fst t \<noteq> h) (intervals s)\<rparr>"

definition setTimeout :: "timeout_callback \<Rightarrow> jsnum \<Rightarrow> engine \<Rightarrow> engine" where
  "setTimeout cb d s = s\<lparr>timeouts := timeouts s @ [(d, cb)]\<rparr>"

section \<open>The auto-clicker\<close>

definition stopAutoClicker :: "engine \<Rightarrow> engine" where
  "stopAutoClicker s =
     (case autoClickerInterval s of
        None \<Rightarrow> s
      | Some h \<Rightarrow> (clearInterval h s)\<lparr>autoClickerInterval := None\<rparr>)"

definition start_auto_clicker :: "int \<Rightarrow> engine \<Rightarrow> engine \<times> bool" where
  "start_auto_clicker speed s =
     (let s1 = stopAutoClicker s;
          (h, s2) = setInterval StartHandlerTick speed s1
      in (s2\<lparr>autoClickerInterval := Some h\<rparr>, True))"

definition stop_auto_clicker :: "engine \<Rightarrow> engine \<times> bool" where
  "stop_auto_clicker s = (stopAutoClicker s, True)"

definition toggleAutoClicker :: "engine \<Rightarrow> engine" where
  "toggleAutoClicker s =
     (case autoClickerInterval s of
        Some h \<Rightarrow> send AutoClickerStopped (stopAutoClicker s)
      | None \<Rightarrow>
          (let st = get_settings_or_empty s;
               (h, s1) = setInterval ToggleTick (or_int (autoClickerSpeed st) 100) s
           in send AutoClickerStarted (s1\<lparr>autoClickerInterval := Some h\<rparr>)))"

text \<open>One tick of the repeating timer with handle \<open>h\<close>, if it is still registered.\<close>

definition interval_tick :: "nat \<Rightarrow> engine \<Rightarrow> engine" where
  "interval_tick h s =
     (case find (\<lambda>t. fst t = h) (intervals s) of
        None \<Rightarrow> s
      | Some (_, StartHandlerTick, _) \<Rightarrow> robot [GetMousePos, MouseClick ''left''] s
      | Some (_, ToggleTick, _) \<Rightarrow> robot [MouseClick ''left''] s)"

section \<open>Macro recording\<close>

definition start_macro_recording :: "engine \<Rightarrow> engine \<times> bool" where
  "start_macro_recording s = (s\<lparr>macroRecording := []\<rparr>, True)"

definition stop_macro_recording :: "engine \<Rightarrow> engine \<times> action list" where
  "stop_macro_recording s =
     (s\<lparr>store_lastMacro := Some (macroRecording s)\<rparr>, macroRecording s)"

definition toggleMacroRecording :: "engine \<Rightarrow> engine" where
  "toggleMacroRecording s = send MacroRecordingToggled s"

section \<open>Macro playback\<close>

text \<open>The function scheduled for one action (lines 190 to 197 of main.js).\<close>

definition run_action :: "action \<Rightarrow> engine \<Rightarrow> engine" where
  "run_action a s =
     (if action_type a = ''click''
      then robot [MoveMouse (action_x a) (action_y a),
                  MouseClick (or_string (action_button a) ''left'')] s
      else if action_type a = ''key'' then robot [KeyTap (action_key a)] s
      else s)"

text \<open>
  \<^verbatim>\<open>macro.forEach((action, index) => setTimeout(..., index * (100 / speed)))\<close>, the index
  counted up from the one given.
\<close>

fun forEach_schedule :: "jsnum \<Rightarrow> action list \<Rightarrow> nat \<Rightarrow> engine \<Rightarrow> engine" where
  "forEach_schedule speed [] index s = s"
| "forEach_schedule speed (a # as) index s =
     forEach_schedule speed as (Suc index)
       (setTimeout (ActionCallback a) (js_mul (of_index index) (js_div (num 100) speed)) s)"

text \<open>
  \<^verbatim>\<open>playMacroOnce\<close> of the call whose closure has number \<open>cid\<close>. A number with no closure
  does not occur (the function only exists inside a call); the state is left as it is.
\<close>

definition playMacroOnce :: "nat \<Rightarrow> engine \<Rightarrow> engine" where
  "playMacroOnce cid s =
     (if cid < length (closures s) then
        (let c = closures s ! cid in
         if count_reached (playCount c) (maxPlays c) \<or> \<not> macroPlaying s
         then s\<lparr>macroPlaying := False\<rparr>
         else
           (let s1 = forEach_schedule (run_speed c) (run_macro c) 0 s;
                s2 = s1\<lparr>closures := (closures s1)[cid := c\<lparr>playCount := Suc (playCount c)\<rparr>]\<rparr>
            in setTimeout (PlayMacroOnce cid)
                 (js_add (js_mul (of_index (length (run_macro c)))
                    (js_div (num 100) (run_speed c))) (num 100))
                 s2))
      else s)"

definition play_macro :: "action list \<Rightarrow> jsnum \<Rightarrow> int \<Rightarrow> engine \<Rightarrow> engine \<times> bool" where
  "play_macro macro speed ntimes s =
     (if macroPlaying s then (s, False)
      else
        (let cid = length (closures s);
             s1 = s\<lparr>macroPlaying := True,
                    closures := closures s @
                      [\<lparr>run_macro = macro, run_speed = speed,
                        maxPlays = (if ntimes = - 1 then Infinity else Finite ntimes),
                        playCount = 0\<rparr>]\<rparr>
         in (playMacroOnce cid s1, True)))"

definition stop_macro :: "engine \<Rightarrow> engine \<times> bool" where
  "stop_macro s = (s\<lparr>macroPlaying := False\<rparr>, True)"

definition playMacro :: "engine \<Rightarrow> engine" where
  "playMacro s =
     (let lastMacro = get_lastMacro s in
      if length lastMacro > 0
      then send (MacroPlayed lastMacro (macroSpeed (get_settings_or_empty s))) s
      else s)"

text \<open>
  The timer service invokes the pending one-shot timer at position \<open>k\<close> and forgets it.
  Which pending timer is invoked next is left to the environment.
\<close>

definition fire_timeout :: "nat \<Rightarrow> engine \<Rightarrow> engine" where
  "fire_timeout k s =
     (if k < length (timeouts s) then
        (let cb = snd (timeouts s ! k);
             s1 = s\<lparr>timeouts := take k (timeouts s) @ drop (Suc k) (timeouts s)\<rparr>
         in case cb of
              ActionCallback a \<Rightarrow> run_action a s1
            | PlayMacroOnce cid \<Rightarrow> playMacroOnce cid s1)
      else s)"

section \<open>Settings handlers\<close>

definition get_settings :: "engine \<Rightarrow> engine \<times> settings" where
  "get_settings s =
     (s, case store_settings s of None \<Rightarrow> default_settings | Some st \<Rightarrow> st)"

definition save_settings :: "settings \<Rightarrow> engine \<Rightarrow> engine \<times> bool" where
  "save_settings st s = (s\<lparr>store_settings := Some st\<rparr>, True)"

section \<open>The global key listener\<close>

text \<open>
  The listener of \<^verbatim>\<open>setupGlobalKeyListener\<close>. \<^verbatim>\<open>settings.hotkeyButton.toLowerCase()\<close>
  throws a TypeError when the field is undefined; what the listener did before stays done.
\<close>

definition hotkey_toggle :: "settings \<Rightarrow> string \<Rightarrow> engine \<Rightarrow> engine \<times> js_error option" where
  "hotkey_toggle st dir s =
     (case hotkeyButton st of
        None \<Rightarrow> (s, Some TypeError)
      | Some b \<Rightarrow> (robot [KeyToggle (ToLowerCase b) dir] s, None))"

definition key_listener :: "key_event \<Rightarrow> engine \<Rightarrow> engine \<times> js_error option" where
  "key_listener e s =
     (if e_state e = ''DOWN'' then
        (let st = get_settings_or_empty s;
             s1 = (if e_name e = or_string (autoClickerHotkey st) ''F1''
                   then toggleAutoClicker s else s);
             s2 = (if e_name e = or_string (macroRecordHotkey st) ''F2''
                   then toggleMacroRecording s1 else s1);
             s3 = (if e_name e = or_string (macroPlaybackHotkey st) ''F3''
                   then playMacro s2 else s2)
         in if e_name e = or_string (hotkeyButton st) ''F'' then
              (if hotkeyMode st = Some ''hold'' then hotkey_toggle st ''down'' s3
               else if hotkeyMode st = Some ''toggle'' then
                 (let s4 = s3\<lparr>hotkeyPressed := \<not> hotkeyPressed s3\<rparr> in
                  if hotkeyPressed s4 then hotkey_toggle st ''down'' s4
                  else hotkey_toggle st ''up'' s4)
               else (s3, None))
            else (s3, None))
      else if e_state e = ''UP'' then
        (let st = get_settings_or_empty s in
         if e_name e = or_string (hotkeyButton st) ''F'' \<and> hotkeyMode st = Some ''hold''
         then hotkey_toggle st ''up'' s
         else (s, None))
      else (s, None))"

section \<open>The engine as a transition system\<close>

text \<open>
  Everything that reaches the engine: a key transition, a request of the window on one
  of the IPC channels, a timer of the timer service coming due, and the application
  quitting.
\<close>

datatype event =
    KeyTransition key_event
  | GetSettings
  | SaveSettings settings
  | StartAutoClicker int
  | StopAutoClicker
  | StartMacroRecording
  | StopMacroRecording
  | PlayMacro "action list" jsnum int
  | StopMacro
  | TimeoutDue nat
  | IntervalDue nat
  | BeforeQuit

fun step :: "event \<Rightarrow> engine \<Rightarrow> engine" where
  "step (KeyTransition e) s = fst (key_listener e s)"
| "step GetSettings s = fst (get_settings s)"
| "step (SaveSettings st) s = fst (save_settings st s)"
| "step (StartAutoClicker speed) s = fst (start_auto_clicker speed s)"
| "step StopAutoClicker s = fst (stop_auto_clicker s)"
| "step StartMacroRecording s = fst (start_macro_recording s)"
| "step StopMacroRecording s = fst (stop_macro_recording s)"
| "step (PlayMacro macro speed ntimes) s = fst (play_macro macro speed ntimes s)"
| "step StopMacro s = fst (stop_macro s)"
| "step (TimeoutDue k) s = fire_timeout k s"
| "step (IntervalDue h) s = interval_tick h s"
| "step BeforeQuit s = stopAutoClicker s"

fun run_events :: "event list \<Rightarrow> engine \<Rightarrow> engine" where
  "run_events [] s = s"
| "run_events (e # es) s = run_events es (step e s)"

section \<open>Predicates and sample data\<close>

text \<open>
  The timer service holds exactly the repeating timer whose handle is in
  \<^verbatim>\<open>autoClickerInterval\<close>, and none when the variable is undefined or null.
\<close>

definition single_timer :: "engine \<Rightarrow> bool" where
  "single_timer s =
     (map fst (intervals s) =
        (case autoClickerInterval s of None \<Rightarrow> [] | Some h \<Rightarrow> [h]))"

text \<open>Two key-tap actions, used where a statement is evaluated on a concrete run.\<close>

definition key_a :: action where
  "key_a = \<lparr>action_type = ''key'', action_x = 0, action_y = 0, action_button = None,
            action_key = ''a''\<rparr>"

definition key_b :: action where
  "key_b = \<lparr>action_type = ''key'', action_x = 0, action_y = 0, action_button = None,
            action_key = ''b''\<rparr>"

text \<open>A key going down and a key coming up.\<close>

definition key_down :: "string \<Rightarrow> key_event" where
  "key_down name = \<lparr>e_state = ''DOWN'', e_name = name\<rparr>"

definition key_up :: "string \<Rightarrow> key_event" where
  "key_up name = \<lparr>e_state = ''UP'', e_name = name\<rparr>"

text \<open>
  A run of the engine in which playback is stopped and started again before the pending
  repetition of the stopped call comes due. With the clock in milliseconds: at 0 the
  window asks to play \<open>[key_a]\<close> at speed 1 without end, which registers the action
  (due at 0) and the next repetition (due at 200); the action fires; at 50 the window asks
  to stop; at 60 it asks to play \<open>[key_b]\<close>, which registers that action (due at 60) and
  the next repetition (due at 260); the action fires; at 200 the repetition of the first
  call comes due.
\<close>

definition stop_then_play :: "event list" where
  "stop_then_play =
     [PlayMacro [key_a] (num 1) (- 1), TimeoutDue 0, StopMacro,
      PlayMacro [key_b] (num 1) (- 1), TimeoutDue 1, TimeoutDue 0]"

text \<open>
  Settings saved with the mode alone, the hotkey button left undefined; the listener then
  takes the button to be \<^verbatim>\<open>'F'\<close>.
\<close>

definition hold_mode_only :: settings where
  "hold_mode_only = empty_settings\<lparr>hotkeyMode := Some ''hold''\<rparr>"

definition toggle_mode_only :: settings where
  "toggle_mode_only = empty_settings\<lparr>hotkeyMode := Some ''toggle''\<rparr>"

section \<open>Frame lemmas\<close>

lemmas basic_defs = robot_def send_def setTimeout_def clearInterval_def setInterval_def

subsection \<open>Nothing appends to the recording\<close>

lemma macroRecording_stopAutoClicker: "macroRecording (stopAutoClicker s) = macroRecording s"
  by (simp add: stopAutoClicker_def basic_defs split: option.splits)

lemma macroRecording_toggleAutoClicker: "macroRecording (toggleAutoClicker s) = macroRecording s"
  by (simp add: toggleAutoClicker_def macroRecording_stopAutoClicker basic_defs split: option.splits)

lemma macroRecording_playMacro: "macroRecording (playMacro s) = macroRecording s"
  by (simp add: playMacro_def Let_def basic_defs)

lemma macroRecording_run_action: "macroRecording (run_action a s) = macroRecording s"
  by (simp add: run_action_def basic_defs)

lemma macroRecording_forEach_schedule:
  "macroRecording (forEach_schedule speed as i s) = macroRecording s"
  by (induction as arbitrary: i s) (simp_all add: basic_defs)

lemma macroRecording_playMacroOnce: "macroRecording (playMacroOnce cid s) = macroRecording s"
  by (simp add: playMacroOnce_def Let_def macroRecording_forEach_schedule basic_defs)

lemma macroRecording_fire_timeout: "macroRecording (fire_timeout k s) = macroRecording s"
  by (simp add: fire_timeout_def Let_def macroRecording_playMacroOnce macroRecording_run_action
      split: timeout_callback.splits)

lemma macroRecording_interval_tick: "macroRecording (interval_tick h s) = macroRecording s"
  by (simp add: interval_tick_def basic_defs split: option.splits prod.splits interval_callback.splits)

lemma macroRecording_hotkey_toggle:
  "macroRecording (fst (hotkey_toggle st dir s)) = macroRecording s"
  by (simp add: hotkey_toggle_def basic_defs split: option.splits)

lemma macroRecording_key_listener: "macroRecording (fst (key_listener e s)) = macroRecording s"
  by (simp add: key_listener_def Let_def macroRecording_hotkey_toggle
      macroRecording_toggleAutoClicker macroRecording_playMacro toggleMacroRecording_def send_def)

lemma macroRecording_step: "macroRecording s = [] \<Longrightarrow> macroRecording (step e s) = []"
  by (cases e)
    (simp_all add: macroRecording_key_listener get_settings_def save_settings_def
      start_auto_clicker_def stop_auto_clicker_def start_macro_recording_def
      stop_macro_recording_def play_macro_def stop_macro_def Let_def
      macroRecording_stopAutoClicker macroRecording_playMacroOnce
      macroRecording_fire_timeout macroRecording_interval_tick basic_defs split: prod.splits)

lemma macroRecording_run_events:
  "macroRecording s = [] \<Longrightarrow> macroRecording (run_events es s) = []"
  by (induction es arbitrary: s) (simp_all add: macroRecording_step)


subsection \<open>The auto-clicker timer\<close>

lemma stopAutoClicker_clears:
  "single_timer s \<Longrightarrow>
     intervals (stopAutoClicker s) = [] \<and> autoClickerInterval (stopAutoClicker s) = None"
  by (auto simp: single_timer_def stopAutoClicker_def clearInterval_def split: option.splits)

lemma next_handle_stopAutoClicker: "next_handle (stopAutoClicker s) = next_handle s"
  by (simp add: stopAutoClicker_def clearInterval_def split: option.splits)

lemma single_timer_stopAutoClicker: "single_timer s \<Longrightarrow> single_timer (stopAutoClicker s)"
  using stopAutoClicker_clears [of s] by (simp add: single_timer_def)

lemma start_auto_clicker_intervals:
  "intervals (fst (start_auto_clicker ms s)) =
     intervals (stopAutoClicker s) @ [(next_handle s, StartHandlerTick, ms)] \<and>
   autoClickerInterval (fst (start_auto_clicker ms s)) = Some (next_handle s)"
  by (simp add: start_auto_clicker_def setInterval_def Let_def next_handle_stopAutoClicker)

lemma single_timer_start: "single_timer s \<Longrightarrow> single_timer (fst (start_auto_clicker ms s))"
  using stopAutoClicker_clears [of s] start_auto_clicker_intervals [of ms s]
  by (simp add: single_timer_def)

lemma toggleAutoClicker_intervals:
  "single_timer s \<Longrightarrow>
     (case autoClickerInterval s of
        Some h \<Rightarrow> intervals (toggleAutoClicker s) = [] \<and>
                  autoClickerInterval (toggleAutoClicker s) = None
      | None \<Rightarrow>
          intervals (toggleAutoClicker s) =
            [(next_handle s, ToggleTick,
              or_int (autoClickerSpeed (get_settings_or_empty s)) 100)] \<and>
          autoClickerInterval (toggleAutoClicker s) = Some (next_handle s))"
  using stopAutoClicker_clears [of s]
  by (auto simp: toggleAutoClicker_def single_timer_def send_def setInterval_def
      split: option.splits)

lemma single_timer_toggle: "single_timer s \<Longrightarrow> single_timer (toggleAutoClicker s)"
  using toggleAutoClicker_intervals [of s]
  by (auto simp: single_timer_def split: option.splits)

lemma timers_playMacro:
  "intervals (playMacro s) = intervals s \<and>
   autoClickerInterval (playMacro s) = autoClickerInterval s"
  by (simp add: playMacro_def Let_def basic_defs)

lemma timers_run_action:
  "intervals (run_action a s) = intervals s \<and>
   autoClickerInterval (run_action a s) = autoClickerInterval s"
  by (simp add: run_action_def basic_defs)

lemma timers_forEach_schedule:
  "intervals (forEach_schedule speed as i s) = intervals s \<and>
   autoClickerInterval (forEach_schedule speed as i s) = autoClickerInterval s"
  by (induction as arbitrary: i s) (simp_all add: basic_defs)

lemma timers_playMacroOnce:
  "intervals (playMacroOnce cid s) = intervals s \<and>
   autoClickerInterval (playMacroOnce cid s) = autoClickerInterval s"
  by (simp add: playMacroOnce_def Let_def timers_forEach_schedule basic_defs)

lemma timers_fire_timeout:
  "intervals (fire_timeout k s) = intervals s \<and>
   autoClickerInterval (fire_timeout k s) = autoClickerInterval s"
  by (simp add: fire_timeout_def Let_def timers_playMacroOnce timers_run_action
      split: timeout_callback.splits)

lemma timers_interval_tick:
  "intervals (interval_tick h s) = intervals s \<and>
   autoClickerInterval (interval_tick h s) = autoClickerInterval s"
  by (simp add: interval_tick_def basic_defs split: option.splits prod.splits interval_callback.splits)

lemma timers_hotkey_toggle:
  "intervals (fst (hotkey_toggle st dir s)) = intervals s \<and>
   autoClickerInterval (fst (hotkey_toggle st dir s)) = autoClickerInterval s"
  by (simp add: hotkey_toggle_def basic_defs split: option.splits)

lemma single_timer_key_listener:
  assumes "single_timer s"
  shows "single_timer (fst (key_listener e s))"
proof -
  have a: "single_timer (toggleAutoClicker s)"
    using assms by (rule single_timer_toggle)
  have b: "\<And>t. single_timer (toggleMacroRecording t) = single_timer t"
    by (simp add: toggleMacroRecording_def send_def single_timer_def)
  have c: "\<And>t. single_timer (playMacro t) = single_timer t"
    by (simp add: single_timer_def timers_playMacro)
  have d: "\<And>st dir t. single_timer (fst (hotkey_toggle st dir t)) = single_timer t"
    by (simp add: single_timer_def timers_hotkey_toggle)
  have e: "\<And>t b. single_timer (t\<lparr>hotkeyPressed := b\<rparr>) = single_timer t"
    by (simp add: single_timer_def)
  show ?thesis
    using assms a by (simp add: key_listener_def Let_def b c d e)
qed

lemma single_timer_play_macro:
  "single_timer (fst (play_macro m sp n s)) = single_timer s"
  by (simp add: play_macro_def Let_def single_timer_def timers_playMacroOnce)

lemma single_timer_step: "single_timer s \<Longrightarrow> single_timer (step e s)"
proof (cases e)
  case (KeyTransition k)
  assume "single_timer s"
  then show ?thesis using KeyTransition by (simp add: single_timer_key_listener)
next
  case GetSettings
  assume "single_timer s"
  then show ?thesis using GetSettings by (simp add: get_settings_def)
next
  case (SaveSettings st)
  assume "single_timer s"
  then show ?thesis using SaveSettings by (simp add: save_settings_def single_timer_def)
next
  case (StartAutoClicker ms)
  assume "single_timer s"
  then show ?thesis using StartAutoClicker by (simp add: single_timer_start)
next
  case StopAutoClicker
  assume "single_timer s"
  then show ?thesis using StopAutoClicker
    by (simp add: stop_auto_clicker_def single_timer_stopAutoClicker)
next
  case StartMacroRecording
  assume "single_timer s"
  then show ?thesis using StartMacroRecording
    by (simp add: start_macro_recording_def single_timer_def)
next
  case StopMacroRecording
  assume "single_timer s"
  then show ?thesis using StopMacroRecording
    by (simp add: stop_macro_recording_def single_timer_def)
next
  case (PlayMacro m sp n)
  assume "single_timer s"
  then show ?thesis using PlayMacro by (simp add: single_timer_play_macro)
next
  case StopMacro
  assume "single_timer s"
  then show ?thesis using StopMacro by (simp add: stop_macro_def single_timer_def)
next
  case (TimeoutDue k)
  assume "single_timer s"
  then show ?thesis using TimeoutDue by (simp add: single_timer_def timers_fire_timeout)
next
  case (IntervalDue h)
  assume "single_timer s"
  then show ?thesis using IntervalDue by (simp add: single_timer_def timers_interval_tick)
next
  case BeforeQuit
  assume "single_timer s"
  then show ?thesis using BeforeQuit by (simp add: single_timer_stopAutoClicker)
qed

lemma single_timer_run_events: "single_timer s \<Longrightarrow> single_timer (run_events es s)"
  by (induction es arbitrary: s) (simp_all add: single_timer_step)

lemma single_timer_launch: "single_timer (launch st lm)"
  by (simp add: single_timer_def launch_def)

lemma single_timer_length:
  assumes "single_timer s"
  shows "length (intervals s) \<le> 1"
proof -
  have "length (map fst (intervals s)) \<le> 1"
    using assms unfolding single_timer_def by (simp split: option.splits)
  then show ?thesis by simp
qed


section \<open>Playback: overlap and the zero count\<close>

text \<open>
  C2. While the playing flag is set, a further call of the play-macro handler returns
  false and the whole engine state (the flag, every closure with its play count, every
  pending timer) is the state before the call; when the flag is not set the handler
  returns true.
\<close>

theorem play_macro_second_call:
  "(macroPlaying s \<longrightarrow> play_macro macro speed ntimes s = (s, False)) \<and>
   (\<not> macroPlaying s \<longrightarrow> snd (play_macro macro speed ntimes s) = True)"
  by (simp add: play_macro_def Let_def)

theorem play_macro_second_call_witness:
  "macroPlaying (fst (play_macro [key_a] (num 1) (- 1) (launch None None))) \<and>
   play_macro [key_b] (num 2) 3 (fst (play_macro [key_a] (num 1) (- 1) (launch None None))) =
     (fst (play_macro [key_a] (num 1) (- 1) (launch None None)), False) \<and>
   \<not> macroPlaying (launch None None) \<and>
   snd (play_macro [key_a] (num 1) (- 1) (launch None None)) = True"
proof -
  have idle: "\<not> macroPlaying (launch None None)"
    by (simp add: launch_def)
  have busy: "macroPlaying (fst (play_macro [key_a] (num 1) (- 1) (launch None None)))"
    by (simp add: play_macro_def playMacroOnce_def Let_def launch_def setTimeout_def)
  show ?thesis
    using idle busy
      play_macro_second_call [of "fst (play_macro [key_a] (num 1) (- 1) (launch None None))"
        "[key_b]" "num 2" 3]
      play_macro_second_call [of "launch None None" "[key_a]" "num 1" "- 1"]
    by simp
qed

text \<open>
  C9. With the flag not set, \<^verbatim>\<open>play(sequence, speed, 0)\<close> returns true; the first call of
  \<^verbatim>\<open>playMacroOnce\<close> finds \<^verbatim>\<open>0 >= 0\<close> before anything is scheduled, so no timer is
  registered, robotjs is not called, and the flag is false again when the handler
  returns. Nothing else of the engine changes.
\<close>

theorem play_macro_zero_times:
  assumes "\<not> macroPlaying s"
  shows "snd (play_macro macro speed 0 s) = True \<and>
         macroPlaying (fst (play_macro macro speed 0 s)) = False \<and>
         timeouts (fst (play_macro macro speed 0 s)) = timeouts s \<and>
         robot_calls (fst (play_macro macro speed 0 s)) = robot_calls s \<and>
         intervals (fst (play_macro macro speed 0 s)) = intervals s \<and>
         autoClickerInterval (fst (play_macro macro speed 0 s)) = autoClickerInterval s \<and>
         macroRecording (fst (play_macro macro speed 0 s)) = macroRecording s \<and>
         hotkeyPressed (fst (play_macro macro speed 0 s)) = hotkeyPressed s \<and>
         store_settings (fst (play_macro macro speed 0 s)) = store_settings s \<and>
         store_lastMacro (fst (play_macro macro speed 0 s)) = store_lastMacro s \<and>
         sent (fst (play_macro macro speed 0 s)) = sent s"
  using assms by (simp add: play_macro_def playMacroOnce_def Let_def nth_append)

theorem play_macro_zero_times_witness:
  "\<not> macroPlaying (launch None None) \<and>
   snd (play_macro [key_a, key_b] (num 2) 0 (launch None None)) = True \<and>
   macroPlaying (fst (play_macro [key_a, key_b] (num 2) 0 (launch None None))) = False \<and>
   timeouts (fst (play_macro [key_a, key_b] (num 2) 0 (launch None None))) = [] \<and>
   robot_calls (fst (play_macro [key_a, key_b] (num 2) 0 (launch None None))) = []"
proof -
  have idle: "\<not> macroPlaying (launch None None)"
    by (simp add: launch_def)
  have init: "timeouts (launch None None) = [] \<and> robot_calls (launch None None) = []"
    by (simp add: launch_def)
  show ?thesis
    using idle init play_macro_zero_times [OF idle, of "[key_a, key_b]" "num 2"]
    by simp
qed

section \<open>The arithmetic of the delays\<close>

text \<open>
  The delays that the runs below need, computed with the operations above. At speed 3
  the quotient \<open>100 / 3\<close> is the double 33.333333333333336, not a third of a hundred.
\<close>

lemma delay_speed_1:
  "js_mul (of_index 0) (js_div (num 100) (num 1)) = num 0 \<and>
   js_add (js_mul (of_index (Suc 0)) (js_div (num 100) (num 1))) (num 100) = num 200"
  by code_simp



lemma delay_speed_minus_2:
  "js_mul (of_index 0) (js_div (num 100) (num (- 2))) = Num True 0 \<and>
   js_add (js_mul (of_index (Suc 0)) (js_div (num 100) (num (- 2)))) (num 100) = num 50"
  by code_simp

lemma delay_speed_0:
  "js_mul (of_index 0) (js_div (num 100) (num 0)) = NaN \<and>
   js_add (js_mul (of_index (Suc 0)) (js_div (num 100) (num 0))) (num 100) = Infty False"
  by code_simp

text \<open>
  A positive speed so small that \<open>100 / speed\<close> is beyond the largest double: the
  quotient is the infinity, the delay of the action at index 0 is NaN, and the delay of
  the next repetition is the infinity.
\<close>

lemma pow2_pos: "0 < pow2 k"
  by (simp add: pow2_def)

lemma round_double_overflow:
  assumes "0 < m" and "1024 \<le> ilog2 m"
  shows "round_double neg m = Infty neg"
  using assms by (simp add: round_double_def Let_def max_def)

lemma ilog2_scaled:
  assumes "0 < a"
  shows "bitlen a + int c - 2 \<le> ilog2 (of_int a * 2 ^ c)"
proof -
  have "(of_int a * 2 ^ c :: rat) = of_int (a * 2 ^ c)"
    by simp
  then have q: "quotient_of (of_int a * 2 ^ c :: rat) = (a * 2 ^ c, 1)"
    by (simp only: quotient_of_rat_of_int)
  have b: "bitlen (a * 2 ^ c) = bitlen a + int c"
    using assms by (rule bitlen_pow2)
  have one: "bitlen 1 = 1"
    by (simp add: bitlen_alt_def)
  show ?thesis
    unfolding ilog2_def q by (simp add: Let_def b one)
qed

lemma bitlen_100: "bitlen 100 = 7"
  by code_simp

lemma tiny_speed_quotient: "js_div (num 100) (num (pow2 (- 1020))) = Infty False"
proof -
  have m: "(100::rat) / pow2 (- 1020) = of_int 100 * 2 ^ 1020"
    by (simp add: pow2_def)
  have "1024 \<le> ilog2 (of_int 100 * 2 ^ 1020)"
    using ilog2_scaled [of 100 1020] by (simp add: bitlen_100)
  then have "round_double False (100 / pow2 (- 1020)) = Infty False"
    unfolding m by (intro round_double_overflow) simp_all
  moreover have "num (pow2 (- 1020)) = Num False (pow2 (- 1020))"
    using pow2_pos [of "- 1020"] by (simp add: num_def)
  moreover have "pow2 (- 1020) \<noteq> 0"
    using pow2_pos [of "- 1020"] by simp
  ultimately show ?thesis
    by (simp add: num_def)
qed

lemma delay_tiny_speed:
  "js_mul (of_index 0) (js_div (num 100) (num (pow2 (- 1020)))) = NaN \<and>
   js_add (js_mul (of_index (Suc 0)) (js_div (num 100) (num (pow2 (- 1020))))) (num 100) =
     Infty False"
  unfolding tiny_speed_quotient by (simp add: of_index_def num_def)

section \<open>Playback: what one repetition schedules\<close>

lemma forEach_schedule_eq:
  "forEach_schedule speed as i s =
     s\<lparr>timeouts := timeouts s @
        map (\<lambda>j. (js_mul (of_index (i + j)) (js_div (num 100) speed), ActionCallback (as ! j)))
          [0..<length as]\<rparr>"
proof (induction as arbitrary: i s)
  case Nil
  show ?case by simp
next
  case (Cons a as)
  show ?case
    by (simp add: Cons.IH setTimeout_def map_upt_Suc del: upt_Suc)
qed

lemma playMacroOnce_continue:
  assumes "cid < length (closures s)" and "macroPlaying s"
    and "\<not> count_reached (playCount (closures s ! cid)) (maxPlays (closures s ! cid))"
  shows "timeouts (playMacroOnce cid s) =
     timeouts s @
     map (\<lambda>j. (js_mul (of_index j) (js_div (num 100) (run_speed (closures s ! cid))),
                 ActionCallback (run_macro (closures s ! cid) ! j)))
       [0..<length (run_macro (closures s ! cid))] @
     [(js_add (js_mul (of_index (length (run_macro (closures s ! cid))))
          (js_div (num 100) (run_speed (closures s ! cid)))) (num 100), PlayMacroOnce cid)]"
  using assms by (simp add: playMacroOnce_def Let_def forEach_schedule_eq setTimeout_def)

lemma playMacroOnce_stopped:
  "\<not> macroPlaying s \<Longrightarrow> playMacroOnce cid s = s"
  by (simp add: playMacroOnce_def Let_def)



text \<open>
  At the small positive speed \<open>2^-1020\<close> the same timers are registered, with the delays
  NaN and infinity.
\<close>

lemma schedule_at_tiny_speed:
  "timeouts (fst (play_macro [key_a] (num (pow2 (- 1020))) 1 (launch None None))) =
     [(NaN, ActionCallback key_a), (Infty False, PlayMacroOnce 0)]"
  by (simp add: play_macro_def playMacroOnce_def Let_def launch_def setTimeout_def
      delay_tiny_speed)

section \<open>Arguments that are not positive\<close>

text \<open>
  C5, as the code has it. Neither handler looks at the sign of its argument. The
  start-auto-clicker handler returns true for every interval and registers the repeating
  timer with the interval as given, after cancelling the one in
  \<^verbatim>\<open>autoClickerInterval\<close>; the play-macro handler returns false only when the flag is
  set, whatever the speed, and with the flag not set and a count of -1 or at least 1 it
  registers one timer per action and the timer of the next repetition.
\<close>

theorem no_invalid_argument_check:
  "snd (start_auto_clicker ms s) = True \<and>
   intervals (fst (start_auto_clicker ms s)) =
     intervals (stopAutoClicker s) @ [(next_handle s, StartHandlerTick, ms)] \<and>
   snd (play_macro m speed ntimes s) = (\<not> macroPlaying s) \<and>
   (\<not> macroPlaying s \<and> (ntimes = - 1 \<or> 0 < ntimes) \<longrightarrow>
      length (timeouts (fst (play_macro m speed ntimes s))) =
        length (timeouts s) + length m + 1)"
proof (intro conjI impI)
  show "snd (start_auto_clicker ms s) = True"
    by (simp add: start_auto_clicker_def Let_def split: prod.splits)
  show "intervals (fst (start_auto_clicker ms s)) =
     intervals (stopAutoClicker s) @ [(next_handle s, StartHandlerTick, ms)]"
    by (simp add: start_auto_clicker_intervals)
  show "snd (play_macro m speed ntimes s) = (\<not> macroPlaying s)"
    by (simp add: play_macro_def Let_def)
next
  assume h: "\<not> macroPlaying s \<and> (ntimes = - 1 \<or> 0 < ntimes)"
  let ?c = "\<lparr>run_macro = m, run_speed = speed,
              maxPlays = (if ntimes = - 1 then Infinity else Finite ntimes), playCount = 0\<rparr>"
  let ?s1 = "s\<lparr>macroPlaying := True, closures := closures s @ [?c]\<rparr>"
  have r: "\<not> count_reached (playCount ?c) (maxPlays ?c)"
    using h by auto
  have "length (timeouts (playMacroOnce (length (closures s)) ?s1)) =
          length (timeouts s) + length m + 1"
    using r playMacroOnce_continue [of "length (closures s)" ?s1] by simp
  then show "length (timeouts (fst (play_macro m speed ntimes s))) =
        length (timeouts s) + length m + 1"
    using h by (simp add: play_macro_def Let_def)
qed

theorem no_invalid_argument_check_witness:
  "snd (start_auto_clicker (- 5) (launch None None)) = True \<and>
   intervals (fst (start_auto_clicker (- 5) (launch None None))) =
     [(0, StartHandlerTick, - 5)] \<and>
   snd (play_macro [key_a] (num (- 2)) 1 (launch None None)) = True \<and>
   length (timeouts (fst (play_macro [key_a] (num (- 2)) 1 (launch None None)))) = 2"
proof -
  have init: "\<not> macroPlaying (launch None None) \<and> timeouts (launch None None) = [] \<and>
      next_handle (launch None None) = 0 \<and>
      intervals (stopAutoClicker (launch None None)) = []"
    by (simp add: launch_def stopAutoClicker_def)
  show ?thesis
    using init no_invalid_argument_check [of "- 5" "launch None None" "[key_a]" "num (- 2)" 1]
    by simp
qed

text \<open>
  C5 as stated fails: an interval of -5 or 0 and a speed of -2 or 0 are accepted, a
  repeating timer is registered and the actions are scheduled (at speed -2 with the
  delays -0 and 50, at speed 0 with the delays NaN and infinity).
\<close>

theorem invalid_argument_counterexample:
  "snd (start_auto_clicker (- 5) (launch None None)) = True \<and>
   intervals (fst (start_auto_clicker (- 5) (launch None None))) =
     [(0, StartHandlerTick, - 5)] \<and>
   snd (start_auto_clicker 0 (launch None None)) = True \<and>
   intervals (fst (start_auto_clicker 0 (launch None None))) =
     [(0, StartHandlerTick, 0)] \<and>
   snd (play_macro [key_a] (num (- 2)) 1 (launch None None)) = True \<and>
   timeouts (fst (play_macro [key_a] (num (- 2)) 1 (launch None None))) =
     [(Num True 0, ActionCallback key_a), (num 50, PlayMacroOnce 0)] \<and>
   snd (play_macro [key_a] (num 0) 1 (launch None None)) = True \<and>
   timeouts (fst (play_macro [key_a] (num 0) 1 (launch None None))) =
     [(NaN, ActionCallback key_a), (Infty False, PlayMacroOnce 0)]"
  by (simp add: start_auto_clicker_def stopAutoClicker_def setInterval_def play_macro_def
      playMacroOnce_def Let_def launch_def setTimeout_def delay_speed_minus_2 delay_speed_0)

section \<open>The hotkey button\<close>

lemma hotkey_frame_toggleAutoClicker:
  "robot_calls (toggleAutoClicker s) = robot_calls s \<and>
   hotkeyPressed (toggleAutoClicker s) = hotkeyPressed s"
  by (simp add: toggleAutoClicker_def stopAutoClicker_def basic_defs split: option.splits)

lemma hotkey_frame_playMacro:
  "robot_calls (playMacro s) = robot_calls s \<and> hotkeyPressed (playMacro s) = hotkeyPressed s"
  by (simp add: playMacro_def Let_def send_def)

lemma hotkey_frame_toggleMacroRecording:
  "robot_calls (toggleMacroRecording s) = robot_calls s \<and>
   hotkeyPressed (toggleMacroRecording s) = hotkeyPressed s"
  by (simp add: toggleMacroRecording_def send_def)

lemmas hotkey_frames = hotkey_frame_toggleAutoClicker hotkey_frame_playMacro
  hotkey_frame_toggleMacroRecording

text \<open>
  What holds when the settings carry the field \<^verbatim>\<open>hotkeyButton\<close>, with a non-empty name
  \<open>b\<close>, on a transition of the key \<open>b\<close>. In hold mode a DOWN makes exactly one call of
  robotjs, \<^verbatim>\<open>keyToggle(b.toLowerCase(), 'down')\<close>, and leaves \<^verbatim>\<open>hotkeyPressed\<close> alone,
  and an UP does nothing but call \<^verbatim>\<open>keyToggle(b.toLowerCase(), 'up')\<close>. In toggle mode a
  DOWN flips \<^verbatim>\<open>hotkeyPressed\<close> and makes exactly one call, key-down when the flag has
  become true and key-up when it has become false, and an UP leaves the whole state as it
  is. (The other hotkeys may be bound to the same key; what they do on a DOWN touches
  neither robotjs nor the flag.)
\<close>

lemma hotkey_button_named:
  assumes "store_settings s = Some st" and "hotkeyButton st = Some b" and "b \<noteq> []"
  shows "(hotkeyMode st = Some ''hold'' \<longrightarrow>
            snd (key_listener (key_down b) s) = None \<and>
            robot_calls (fst (key_listener (key_down b) s)) =
              robot_calls s @ [KeyToggle (ToLowerCase b) ''down''] \<and>
            hotkeyPressed (fst (key_listener (key_down b) s)) = hotkeyPressed s \<and>
            key_listener (key_up b) s = (robot [KeyToggle (ToLowerCase b) ''up''] s, None)) \<and>
         (hotkeyMode st = Some ''toggle'' \<longrightarrow>
            snd (key_listener (key_down b) s) = None \<and>
            hotkeyPressed (fst (key_listener (key_down b) s)) = (\<not> hotkeyPressed s) \<and>
            robot_calls (fst (key_listener (key_down b) s)) =
              robot_calls s @
                [KeyToggle (ToLowerCase b) (if hotkeyPressed s then ''up'' else ''down'')] \<and>
            key_listener (key_up b) s = (s, None))"
  using assms
  by (simp add: key_listener_def key_down_def key_up_def Let_def get_settings_or_empty_def
      or_string_def hotkey_toggle_def robot_def hotkey_frames)

text \<open>
  C6 on the button bound by default. The settings saved hold the mode and leave
  \<^verbatim>\<open>hotkeyButton\<close> undefined, so the listener takes the button to be \<^verbatim>\<open>'F'\<close>
  (\<^verbatim>\<open>settings.hotkeyButton || 'F'\<close>). The claim is that in hold mode a DOWN of that
  button emits a key-down and an UP a key-up, and that in toggle mode a DOWN flips the
  flag and emits key-down when the flag has become true. The listener compares with the
  default but then calls \<^verbatim>\<open>toLowerCase\<close> on the undefined field itself: in hold mode a
  DOWN and an UP of F throw a TypeError and robotjs is not called; in toggle mode a DOWN
  flips the flag to true, throws, and robotjs is not called.
\<close>

theorem default_hotkey_button_throws:
  "snd (key_listener (key_down ''F'')
      (run_events [SaveSettings hold_mode_only] (launch None None))) = Some TypeError \<and>
   robot_calls (fst (key_listener (key_down ''F'')
      (run_events [SaveSettings hold_mode_only] (launch None None)))) = [] \<and>
   snd (key_listener (key_up ''F'')
      (run_events [SaveSettings hold_mode_only] (launch None None))) = Some TypeError \<and>
   robot_calls (fst (key_listener (key_up ''F'')
      (run_events [SaveSettings hold_mode_only] (launch None None)))) = [] \<and>
   snd (key_listener (key_down ''F'')
      (run_events [SaveSettings toggle_mode_only] (launch None None))) = Some TypeError \<and>
   hotkeyPressed (fst (key_listener (key_down ''F'')
      (run_events [SaveSettings toggle_mode_only] (launch None None)))) = True \<and>
   robot_calls (fst (key_listener (key_down ''F'')
      (run_events [SaveSettings toggle_mode_only] (launch None None)))) = []"
  by (simp add: key_listener_def key_down_def key_up_def Let_def get_settings_or_empty_def
      or_string_def hotkey_toggle_def save_settings_def launch_def hold_mode_only_def
      toggle_mode_only_def empty_settings_def)

section \<open>The auto-clicker keeps one timer\<close>

text \<open>
  C7. In every state the engine reaches from its launch, by any sequence of key
  transitions, requests, timers coming due and quitting, the timer service holds at most
  one repeating timer, the one whose handle is in \<^verbatim>\<open>autoClickerInterval\<close>. In such a state
  the start handler, for any interval (so for every positive one), leaves exactly the new
  timer: the old one is cancelled first, nothing is rejected. \<^verbatim>\<open>toggleAutoClicker\<close> leaves
  no timer when one was active and exactly one new timer otherwise, and
  \<^verbatim>\<open>stopAutoClicker\<close> leaves none, cancelling at most one.
\<close>

theorem single_auto_clicker_timer:
  assumes "s = run_events es (launch st lm)"
  shows "length (intervals s) \<le> 1 \<and>
         single_timer s \<and>
         intervals (fst (start_auto_clicker ms s)) = [(next_handle s, StartHandlerTick, ms)] \<and>
         intervals (toggleAutoClicker s) =
           (if autoClickerInterval s = None
            then [(next_handle s, ToggleTick,
                   or_int (autoClickerSpeed (get_settings_or_empty s)) 100)]
            else []) \<and>
         intervals (stopAutoClicker s) = [] \<and>
         length (intervals s) - length (intervals (stopAutoClicker s)) \<le> 1"
proof -
  have inv: "single_timer s"
    unfolding assms by (rule single_timer_run_events) (rule single_timer_launch)
  have len: "length (intervals s) \<le> 1"
    using inv by (rule single_timer_length)
  have stop: "intervals (stopAutoClicker s) = []"
    using stopAutoClicker_clears [OF inv] by simp
  have start: "intervals (fst (start_auto_clicker ms s)) =
      [(next_handle s, StartHandlerTick, ms)]"
    using start_auto_clicker_intervals [of ms s] stop by simp
  have toggle: "intervals (toggleAutoClicker s) =
           (if autoClickerInterval s = None
            then [(next_handle s, ToggleTick,
                   or_int (autoClickerSpeed (get_settings_or_empty s)) 100)]
            else [])"
    using toggleAutoClicker_intervals [OF inv] by (auto split: option.splits)
  show ?thesis
    using inv len stop start toggle by simp
qed

theorem single_auto_clicker_timer_witness:
  "length (intervals (run_events [StartAutoClicker 50, KeyTransition (key_down ''F1''),
      KeyTransition (key_down ''F1'')] (launch None None))) \<le> 1 \<and>
   intervals (fst (start_auto_clicker 20 (run_events [StartAutoClicker 50,
      KeyTransition (key_down ''F1''), KeyTransition (key_down ''F1'')] (launch None None)))) =
     [(next_handle (run_events [StartAutoClicker 50, KeyTransition (key_down ''F1''),
      KeyTransition (key_down ''F1'')] (launch None None)), StartHandlerTick, 20)] \<and>
   intervals (stopAutoClicker (run_events [StartAutoClicker 50, KeyTransition (key_down ''F1''),
      KeyTransition (key_down ''F1'')] (launch None None))) = []"
  using single_auto_clicker_timer [OF refl, of "[StartAutoClicker 50,
      KeyTransition (key_down ''F1''), KeyTransition (key_down ''F1'')]" None None 20]
  by simp

section \<open>Recording\<close>

text \<open>
  C8, as the code has it. The start handler sets the in-memory sequence to the empty
  one. main.js has no operation that records an action, and nothing else assigns the
  variable, so the sequence is empty in every state the engine reaches; the stop handler
  returns that sequence, which is empty, and stores the empty sequence under
  \<^verbatim>\<open>lastMacro\<close>, with or without a start before it.
\<close>

theorem stop_macro_recording_returns_empty:
  assumes "s = run_events es (launch st lm)"
  shows "macroRecording (fst (start_macro_recording s)) = [] \<and>
         macroRecording s = [] \<and>
         snd (stop_macro_recording s) = macroRecording s \<and>
         snd (stop_macro_recording s) = [] \<and>
         store_lastMacro (fst (stop_macro_recording s)) = Some []"
proof -
  have "macroRecording (launch st lm) = []"
    by (simp add: launch_def)
  then have "macroRecording s = []"
    unfolding assms by (rule macroRecording_run_events)
  then show ?thesis
    by (simp add: start_macro_recording_def stop_macro_recording_def)
qed

theorem stop_macro_recording_returns_empty_witness:
  "snd (stop_macro_recording (run_events [StartMacroRecording,
      KeyTransition (key_down ''a''), KeyTransition (key_up ''a'')] (launch None None))) = [] \<and>
   store_lastMacro (fst (stop_macro_recording (run_events [StartMacroRecording,
      KeyTransition (key_down ''a''), KeyTransition (key_up ''a'')] (launch None None)))) =
     Some []"
  using stop_macro_recording_returns_empty [OF refl, of "[StartMacroRecording,
      KeyTransition (key_down ''a''), KeyTransition (key_up ''a'')]" None None]
  by simp

text \<open>
  C8 as stated fails: after a start, the keys \<open>a\<close> and \<open>b\<close> are pressed and released, and
  the stop handler returns the empty sequence, not the two key actions.
\<close>

theorem record_action_counterexample:
  "snd (stop_macro_recording (run_events [StartMacroRecording,
      KeyTransition (key_down ''a''), KeyTransition (key_up ''a''),
      KeyTransition (key_down ''b''), KeyTransition (key_up ''b'')] (launch None None))) = [] \<and>
   snd (stop_macro_recording (run_events [StartMacroRecording,
      KeyTransition (key_down ''a''), KeyTransition (key_up ''a''),
      KeyTransition (key_down ''b''), KeyTransition (key_up ''b'')] (launch None None))) \<noteq>
     [key_a, key_b]"
  by (simp add: stop_macro_recording_def start_macro_recording_def macroRecording_key_listener
      launch_def)

text \<open>
  C10. The stop handler changes one thing: the value stored under \<^verbatim>\<open>lastMacro\<close> becomes
  the in-memory sequence. The settings, the auto-clicker handle and its timer, the
  playback flag, closures and pending timers, the hotkey flag, and the calls and messages
  made so far are as before. When no start handler has run since the launch (and a macro
  \<open>old\<close> was left in the store by an earlier session), the value stored is the empty
  sequence.
\<close>

theorem stop_macro_recording_overwrites:
  "fst (stop_macro_recording s) = s\<lparr>store_lastMacro := Some (macroRecording s)\<rparr> \<and>
   store_lastMacro (fst (stop_macro_recording s)) = Some (macroRecording s) \<and>
   store_settings (fst (stop_macro_recording s)) = store_settings s \<and>
   autoClickerInterval (fst (stop_macro_recording s)) = autoClickerInterval s \<and>
   intervals (fst (stop_macro_recording s)) = intervals s \<and>
   macroRecording (fst (stop_macro_recording s)) = macroRecording s \<and>
   macroPlaying (fst (stop_macro_recording s)) = macroPlaying s \<and>
   closures (fst (stop_macro_recording s)) = closures s \<and>
   timeouts (fst (stop_macro_recording s)) = timeouts s \<and>
   hotkeyPressed (fst (stop_macro_recording s)) = hotkeyPressed s \<and>
   robot_calls (fst (stop_macro_recording s)) = robot_calls s \<and>
   sent (fst (stop_macro_recording s)) = sent s \<and>
   (StartMacroRecording \<notin> set es \<longrightarrow>
      store_lastMacro (fst (stop_macro_recording (run_events es (launch st (Some old))))) =
        Some [])"
proof -
  have "macroRecording (launch st (Some old)) = []"
    by (simp add: launch_def)
  then have "macroRecording (run_events es (launch st (Some old))) = []"
    by (rule macroRecording_run_events)
  then show ?thesis
    by (simp add: stop_macro_recording_def)
qed

theorem stop_macro_recording_overwrites_witness:
  "StartMacroRecording \<notin> set [SaveSettings default_settings, StopMacro] \<and>
   store_lastMacro (launch None (Some [key_a, key_b])) = Some [key_a, key_b] \<and>
   store_lastMacro (fst (stop_macro_recording
     (run_events [SaveSettings default_settings, StopMacro]
        (launch None (Some [key_a, key_b]))))) = Some []"
  using stop_macro_recording_overwrites [of "launch None None"
      "[SaveSettings default_settings, StopMacro]" None "[key_a, key_b]"]
  by (simp add: launch_def)

section \<open>Playback: stopping\<close>

text \<open>
  What holds of stopping. A repetition that finds the flag not set does nothing
  (\<open>playMacroOnce_stopped\<close>), and a pending action fires whatever the flag says.
\<close>

lemma pending_action_fires:
  assumes "k < length (timeouts s)" and "snd (timeouts s ! k) = ActionCallback a"
  shows "robot_calls (fire_timeout k s) = robot_calls (run_action a s)"
  using assms by (simp add: fire_timeout_def Let_def run_action_def robot_def)

lemmas eval_defs = play_macro_def playMacroOnce_def fire_timeout_def stop_macro_def
  run_action_def robot_def setTimeout_def delay_speed_1 launch_def Let_def key_a_def key_b_def

text \<open>
  C3 on the run \<open>stop_then_play\<close>. The claim is that after the stop no repetition of the
  stopped call begins. The flag is shared by all calls: the second play sets it again
  before the pending repetition of the first call comes due, and that repetition finds
  it set. Before the stop the flag is set; after it the flag is not set, the only pending
  timer is the next repetition of the first call, and that call has played once. At the
  end of the run the first call has begun its second repetition: its play count is 2, its
  action and its next repetition are pending, and the action fires next.
\<close>

theorem stopped_run_resumes:
  "macroPlaying (run_events (take 2 stop_then_play) (launch None None)) \<and>
   \<not> macroPlaying (run_events (take 3 stop_then_play) (launch None None)) \<and>
   timeouts (run_events (take 3 stop_then_play) (launch None None)) =
     [(num 200, PlayMacroOnce 0)] \<and>
   map playCount (closures (run_events (take 3 stop_then_play) (launch None None))) = [1] \<and>
   map playCount (closures (run_events stop_then_play (launch None None))) = [2, 1] \<and>
   timeouts (run_events stop_then_play (launch None None)) =
     [(num 200, PlayMacroOnce 1), (num 0, ActionCallback key_a), (num 200, PlayMacroOnce 0)] \<and>
   robot_calls (run_events (stop_then_play @ [TimeoutDue 1]) (launch None None)) =
     [KeyTap ''a'', KeyTap ''b'', KeyTap ''a'']"
  by (simp add: stop_then_play_def eval_defs)

text \<open>
  C4 on the same run, continued until each call has begun a further repetition. The
  claim is that repetitions of two play calls never dispatch side by side. Here both
  calls have played twice, their actions alternate in the calls made on robotjs, and the
  next repetition of each is pending while the flag is set.
\<close>

theorem two_runs_in_flight:
  "macroPlaying (run_events (stop_then_play @ [TimeoutDue 1, TimeoutDue 0, TimeoutDue 1])
      (launch None None)) \<and>
   timeouts (run_events (stop_then_play @ [TimeoutDue 1, TimeoutDue 0, TimeoutDue 1])
      (launch None None)) = [(num 200, PlayMacroOnce 0), (num 200, PlayMacroOnce 1)] \<and>
   map playCount (closures (run_events
      (stop_then_play @ [TimeoutDue 1, TimeoutDue 0, TimeoutDue 1]) (launch None None))) =
     [2, 2] \<and>
   robot_calls (run_events (stop_then_play @ [TimeoutDue 1, TimeoutDue 0, TimeoutDue 1])
      (launch None None)) = [KeyTap ''a'', KeyTap ''b'', KeyTap ''a'', KeyTap ''b'']"
  by (simp add: stop_then_play_def eval_defs)

end
